theory Spec2Isabelle
  imports Complex_Main
begin

section \<open>Python exceptions\<close>

text \<open>
  The exceptions the modelled functions can raise. \<open>KeyError\<close> and \<open>IndexError\<close> are the
  two subclasses of Python's \<open>LookupError\<close>.
\<close>

datatype error =
    KeyError string
  | IndexError
  | AttributeError string
  | TypeError string
  | ValueError string

fun is_LookupError :: "error \<Rightarrow> bool" where
  "is_LookupError (KeyError k) = True"
| "is_LookupError IndexError = True"
| "is_LookupError (AttributeError a) = False"
| "is_LookupError (TypeError m) = False"
| "is_LookupError (ValueError m) = False"

fun is_TypeError :: "error \<Rightarrow> bool" where
  "is_TypeError (TypeError m) = True"
| "is_TypeError (KeyError k) = False"
| "is_TypeError IndexError = False"
| "is_TypeError (AttributeError a) = False"
| "is_TypeError (ValueError m) = False"

section \<open>Material icons (\<open>_icon/material_icons.py\<close>)\<close>

subsection \<open>Icon tables and \<open>_MaterialIconSVG\<close>\<close>

text \<open>
  \<open>_material_icons()\<close> and \<open>_material_icons_filled()\<close> return the two dictionaries read
  from the JSON resources. The resources are not part of the sources, so both tables are
  parameters of the model: \<open>outline\<close> and \<open>filled_tbl\<close>.
\<close>

type_synonym icon_table = "string \<rightharpoonup> string"

text \<open>Python's \<open>d[k]\<close>: a missing key raises \<open>KeyError\<close>.\<close>

definition subscript :: "icon_table \<Rightarrow> string \<Rightarrow> error + string" where
  "subscript d k = (case d k of None \<Rightarrow> Inl (KeyError k) | Some v \<Rightarrow> Inr v)"

record material_icon_svg =
  svg_id :: string
  svg_color :: "string option"
  svg_rotate :: "int option"
  svg_source :: string

text \<open>\<open>_MaterialIconSVG.__init__(id, filled)\<close>.\<close>

definition MaterialIconSVG_init ::
  "icon_table \<Rightarrow> icon_table \<Rightarrow> string \<Rightarrow> bool \<Rightarrow> error + material_icon_svg" where
  "MaterialIconSVG_init outline filled_tbl ident filled =
     (let src =
        (if filled then
           (if ident \<notin> dom filled_tbl then subscript outline ident
            else subscript filled_tbl ident)
         else subscript outline ident)
      in case src of
           Inl e \<Rightarrow> Inl e
         | Inr s \<Rightarrow> Inr \<lparr>svg_id = ident, svg_color = None, svg_rotate = None, svg_source = s\<rparr>)"

text \<open>The table whose entry the constructor ends up reading.\<close>

definition consulted_table :: "icon_table \<Rightarrow> icon_table \<Rightarrow> string \<Rightarrow> bool \<Rightarrow> icon_table" where
  "consulted_table outline filled_tbl ident filled =
     (if filled \<and> ident \<in> dom filled_tbl then filled_tbl else outline)"

subsection \<open>Colour resolution in \<open>_MaterialIconEngine.paint\<close>\<close>

text \<open>
  The value of \<open>self.color\<close>, by the \<open>isinstance\<close> tests of \<open>paint\<close>, in their order:
  a string, a dict, a tuple, a \<open>QColor\<close>, anything else. \<open>None\<close> is the absent option.
\<close>

datatype color_spec =
    HexStr string
  | AppearanceDict "(string \<times> string) list"
  | RgbTuple "int list"
  | NativeColor int int int int
  | OtherObject

datatype icon_mode = Normal | Disabled | Active | Selected

text \<open>A \<open>QColor\<close> of the palette, as the four components \<open>getRgb()\<close> returns.\<close>

record qpalette =
  text_color :: "int \<times> int \<times> int \<times> int"
  disabled_text_color :: "int \<times> int \<times> int \<times> int"

fun getRgb :: "int \<times> int \<times> int \<times> int \<Rightarrow> int list" where
  "getRgb (r, g, b, a) = [r, g, b, a]"

text \<open>
  Lines 67 to 90 of \<open>paint\<close>. The class \<open>Color\<close> (\<open>bec_qthemes._color\<close>) is not among the
  sources: its two constructors are parameters here, \<open>from_hex\<close> taking the string and
  \<open>from_rgba\<close> taking the positional arguments of the call as a list; they are modelled
  below.
\<close>

definition paint_color ::
  "(string \<Rightarrow> error + 'c) \<Rightarrow> (int list \<Rightarrow> error + 'c) \<Rightarrow> qpalette \<Rightarrow>
   color_spec option \<Rightarrow> icon_mode \<Rightarrow> error + 'c" where
  "paint_color from_hex from_rgba palette color mode =
     (case color of
        None \<Rightarrow>
          (if mode = Disabled then from_rgba (getRgb (disabled_text_color palette))
           else from_rgba (getRgb (text_color palette)))
      | Some (HexStr s) \<Rightarrow> from_hex s
      | Some (AppearanceDict d) \<Rightarrow> from_rgba (getRgb (text_color palette))
      | Some (RgbTuple t) \<Rightarrow> from_rgba t
      | Some (NativeColor r g b a) \<Rightarrow> from_rgba [r, g, b, a]
      | Some OtherObject \<Rightarrow> from_hex ''#000000'')"

text \<open>
  The resolved colour of the specification, "a concrete RGBA quadruple": red, green, blue
  and alpha, each as \<open>getRgb()\<close> gives it, from 0 to 255.
\<close>

type_synonym rgba = "int \<times> int \<times> int \<times> int"

text \<open>
  Modelled from the spec: \<open>Color.from_rgba\<close> (\<open>bec_qthemes._color\<close>, not among the
  sources). The colour is built from the four components \<open>r\<close>, \<open>g\<close>, \<open>b\<close>, \<open>a\<close>, "used
  verbatim"; these are the four positional arguments that the calls of \<open>paint\<close> at lines
  72, 75, 82 and 86 pass. A call with another number of positional arguments is Python's
  \<open>TypeError\<close>.
\<close>

definition Color_from_rgba :: "int list \<Rightarrow> error + rgba" where
  "Color_from_rgba args =
     (case args of
        [r, g, b, a] \<Rightarrow> Inr (r, g, b, a)
      | _ \<Rightarrow> Inl (TypeError ''from_rgba() takes 4 positional arguments''))"

text \<open>The value of a hexadecimal digit, in either case.\<close>

definition hex_digit :: "char \<Rightarrow> int option" where
  "hex_digit c =
     (let n = int (of_char c)
      in if 48 \<le> n \<and> n \<le> 57 then Some (n - 48)
         else if 97 \<le> n \<and> n \<le> 102 then Some (n - 87)
         else if 65 \<le> n \<and> n \<le> 70 then Some (n - 55)
         else None)"

text \<open>
  Modelled from the spec: \<open>Color.from_hex\<close> (\<open>bec_qthemes._color\<close>, not among the sources),
  "parse directly": \<open>#\<close> and six hexadecimal digits give the opaque colour of these
  components, so that \<open>#ff0000\<close> is pure red. The specification describes no other form; a
  string of another form does not parse, Python's \<open>ValueError\<close>.
\<close>

definition Color_from_hex :: "string \<Rightarrow> error + rgba" where
  "Color_from_hex s =
     (case s of
        [h, r1, r2, g1, g2, b1, b2] \<Rightarrow>
          (case (h = CHR ''#'', map hex_digit [r1, r2, g1, g2, b1, b2]) of
             (True, [Some x1, Some x2, Some y1, Some y2, Some z1, Some z2]) \<Rightarrow>
               Inr (16 * x1 + x2, 16 * y1 + y2, 16 * z1 + z2, 255)
           | _ \<Rightarrow> Inl (ValueError s))
      | _ \<Rightarrow> Inl (ValueError s))"

subsection \<open>\<open>material_icon\<close>\<close>

record material_icon_engine =
  engine_svg :: material_icon_svg
  engine_color :: "color_spec option"

datatype size_arg = SizeTuple int int | QSize int int

datatype icon_type = QIcon_type | QPixmap_type | Other_type string

record qpixmap =
  pix_width :: int
  pix_height :: int
  pix_engine :: material_icon_engine
  pix_mode :: "icon_mode option"

datatype icon_result = QIcon material_icon_engine | QPixmap qpixmap

text \<open>
  Modelled from the spec: \<open>Svg.rotate\<close> (\<open>bec_qthemes._icon.svg_util\<close>, not among the
  sources), "apply a rotation transform to the path data": the angle is recorded on the svg.
\<close>

definition rotate_svg :: "int \<Rightarrow> material_icon_svg \<Rightarrow> material_icon_svg" where
  "rotate_svg deg svg = svg\<lparr>svg_rotate := Some deg\<rparr>"

text \<open>
  Modelled from the spec: \<open>SvgIconEngine.pixmap(size, mode, state)\<close>
  (\<open>bec_qthemes._icon.icon_engine\<close>, not among the sources), "rasterize into the requested
  pixel size": the raster has the width and height of the size it is given.
\<close>

definition pixmap :: "material_icon_engine \<Rightarrow> int \<times> int \<Rightarrow> icon_mode option \<Rightarrow> qpixmap" where
  "pixmap icon sz mode =
     \<lparr>pix_width = fst sz, pix_height = snd sz, pix_engine = icon, pix_mode = mode\<rparr>"

text \<open>\<open>material_icon(icon_name, size, color, rotate, mode=, filled=, icon_type=)\<close>.\<close>

definition material_icon ::
  "icon_table \<Rightarrow> icon_table \<Rightarrow> string \<Rightarrow> size_arg option \<Rightarrow> color_spec option \<Rightarrow> int \<Rightarrow>
   icon_mode option \<Rightarrow> bool \<Rightarrow> icon_type \<Rightarrow> error + icon_result" where
  "material_icon outline filled_tbl icon_name size_opt color rot mode filled ty =
     (case MaterialIconSVG_init outline filled_tbl icon_name filled of
        Inl e \<Rightarrow> Inl e
      | Inr svg0 \<Rightarrow>
          (let svg = (if rot \<noteq> 0 then rotate_svg rot svg0 else svg0);
               icon0 = \<lparr>engine_svg = svg, engine_color = None\<rparr>;
               icon = (if color \<noteq> None then icon0\<lparr>engine_color := color\<rparr> else icon0)
           in if ty = QIcon_type then Inr (QIcon icon)
              else if ty = QPixmap_type then
                (let sz = (case size_opt of
                             None \<Rightarrow> (50, 50)
                           | Some (SizeTuple w h) \<Rightarrow> (w, h)
                           | Some (QSize w h) \<Rightarrow> (w, h))
                 in Inr (QPixmap (pixmap icon sz mode)))
              else Inl (TypeError ''icon_type must be QIcon or QPixmap'')))"

section \<open>Hover gradient (\<open>_hover_gradient.py\<close>)\<close>

subsection \<open>Widgets\<close>

datatype qpoint = QPoint (px: int) (py: int)

text \<open>\<open>QtGui.QColor(name)\<close>: a colour built from its name; no name makes the constructor fail.\<close>

datatype qcolor = QColor string

text \<open>
  The value of \<open>widget.paintEvent\<close>: the widget's own routine, or the closure
  \<open>patched_paint\<close> that \<open>enable_hover_gradient\<close> installs, which captures \<open>opacity\<close> and
  \<open>original_paint\<close>.
\<close>

datatype paint_routine = OriginalPaint | PatchedPaint real paint_routine

text \<open>
  A \<open>_HoverGradientFilter\<close>. \<open>filter_target\<close> is \<open>self._target\<close>: the identity of the
  widget, or \<open>None\<close>. \<open>delete_later\<close> records that \<open>deleteLater()\<close> was called.
\<close>

record hover_filter =
  filter_target :: "nat option"
  delete_later :: bool

text \<open>
  A widget: the part of a \<open>QWidget\<close> the module reads and writes, and the attributes it
  attaches. An attribute the module reads with \<open>getattr(widget, name, default)\<close> may be
  missing: it is an option, \<open>None\<close> when the widget has no such attribute.
  \<open>global_origin\<close> is the global position of the widget's top-left corner;
  \<open>event_filters\<close> lists the installed filters, each named by the widget it was created
  for, the last installed first; \<open>update_requests\<close> counts the calls of \<open>update()\<close>.
\<close>

record widget =
  width :: int
  height :: int
  global_origin :: qpoint
  styleSheet :: string
  mouseTracking :: bool
  styledBackground :: bool
  event_filters :: "nat list"
  update_requests :: nat
  paintEvent :: paint_routine
  hg_enabled :: "bool option"
  hg_cols :: "qcolor list option"
  hg_hover :: "bool option"
  hg_pressed :: "bool option"
  hg_pos :: "qpoint option"
  hg_radius :: "int option"
  hg_orig_paint :: "paint_routine option"
  hg_filter :: "hover_filter option"

text \<open>The widgets of the application, by identity, and a widget with its child widgets.\<close>

type_synonym store = "nat \<Rightarrow> widget"

datatype wtree = WNode (node_id: nat) (node_children: "wtree list")

text \<open>\<open>getattr(widget, "_hg_...", default)\<close> with the defaults the source gives.\<close>

definition getattr_hover :: "widget \<Rightarrow> bool" where
  "getattr_hover w = (case hg_hover w of None \<Rightarrow> False | Some b \<Rightarrow> b)"

definition getattr_pressed :: "widget \<Rightarrow> bool" where
  "getattr_pressed w = (case hg_pressed w of None \<Rightarrow> False | Some b \<Rightarrow> b)"

definition getattr_enabled :: "widget \<Rightarrow> bool" where
  "getattr_enabled w = (case hg_enabled w of None \<Rightarrow> False | Some b \<Rightarrow> b)"

definition getattr_pos :: "widget \<Rightarrow> qpoint" where
  "getattr_pos w = (case hg_pos w of None \<Rightarrow> QPoint 0 0 | Some p \<Rightarrow> p)"

definition getattr_cols :: "widget \<Rightarrow> qcolor list" where
  "getattr_cols w = (case hg_cols w of None \<Rightarrow> [QColor ''#ffffff''] | Some cs \<Rightarrow> cs)"

text \<open>
  The toolkit's operations: \<open>update()\<close> requests a repaint, \<open>mapFromGlobal\<close> subtracts the
  widget's global origin, \<open>rect().contains\<close> tests the rectangle from \<open>(0, 0)\<close> of the
  widget's size, \<open>installEventFilter\<close> puts the filter first and drops an older
  installation of the same filter.
\<close>

definition update :: "widget \<Rightarrow> widget" where
  "update w = w\<lparr>update_requests := Suc (update_requests w)\<rparr>"

definition mapFromGlobal :: "widget \<Rightarrow> qpoint \<Rightarrow> qpoint" where
  "mapFromGlobal w g = QPoint (px g - px (global_origin w)) (py g - py (global_origin w))"

definition rect_contains :: "widget \<Rightarrow> qpoint \<Rightarrow> bool" where
  "rect_contains w p = (0 \<le> px p \<and> px p < width w \<and> 0 \<le> py p \<and> py p < height w)"

definition installEventFilter :: "nat \<Rightarrow> nat list \<Rightarrow> nat list" where
  "installEventFilter f fs = f # removeAll f fs"

subsection \<open>\<open>_HoverGradientFilter\<close>\<close>

text \<open>
  The events \<open>eventFilter\<close> tells apart, with what it reads of each: the global position of
  a mouse move, the position of an enter event.
\<close>

datatype event =
    MouseMove qpoint
  | Enter qpoint
  | Leave
  | MouseButtonPress
  | MouseButtonRelease
  | OtherEvent

text \<open>\<open>_on_dead\<close>, the slot connected to the target's \<open>destroyed\<close> signal.\<close>

definition on_dead :: "hover_filter \<Rightarrow> hover_filter" where
  "on_dead flt = flt\<lparr>filter_target := None, delete_later := True\<rparr>"

text \<open>\<open>findChildren(QWidget)\<close>: every descendant, a child before its own descendants.\<close>

fun findChildren :: "wtree \<Rightarrow> wtree list" where
  "findChildren (WNode i cs) = concat (map (\<lambda>c. c # findChildren c) cs)"

text \<open>\<open>_propagate_mouse_tracking\<close>; \<open>flt\<close> names the filter \<open>self\<close>.\<close>

function propagate_mouse_tracking :: "nat \<Rightarrow> wtree \<Rightarrow> store \<Rightarrow> store" where
  "propagate_mouse_tracking flt wdg st =
     fold (\<lambda>child s.
             propagate_mouse_tracking flt child
               (s(node_id child :=
                    (s (node_id child))\<lparr>mouseTracking := True,
                       event_filters := installEventFilter flt (event_filters (s (node_id child)))\<rparr>)))
          (findChildren wdg) st"
  by pat_completeness auto
termination
proof (relation "measure (\<lambda>(flt, wdg, st). size wdg)")
  show "wf (measure (\<lambda>(flt, wdg, st). size wdg))"
    by simp
next
  fix flt :: nat and wdg :: wtree and st :: store and child :: wtree and s :: store
  assume mem: "child \<in> set (findChildren wdg)"
  have smaller: "c \<in> set (findChildren t) \<Longrightarrow> size c < size t" for c t
  proof (induction t arbitrary: c)
    case (WNode i cs)
    from WNode.prems obtain d where d: "d \<in> set cs" and c: "c = d \<or> c \<in> set (findChildren d)"
      by auto
    have "size d < size (WNode i cs)"
      using d by (simp add: size_list_estimation' less_Suc_eq_le)
    moreover have "c \<in> set (findChildren d) \<Longrightarrow> size c < size d"
      using WNode.IH d by blast
    ultimately show ?case
      using c by auto
  qed
  show "((flt, child,
          s(node_id child :=
              (s (node_id child))\<lparr>mouseTracking := True,
                 event_filters := installEventFilter flt (event_filters (s (node_id child)))\<rparr>)),
         (flt, wdg, st)) \<in> measure (\<lambda>(flt, wdg, st). size wdg)"
    using smaller [OF mem] by simp
qed

declare propagate_mouse_tracking.simps [simp del]

text \<open>
  \<open>_HoverGradientFilter.__init__(target)\<close>: the new filter, and the store after the
  propagation over the target's descendants.
\<close>

definition HoverGradientFilter_init :: "wtree \<Rightarrow> store \<Rightarrow> hover_filter \<times> store" where
  "HoverGradientFilter_init target st =
     (\<lparr>filter_target = Some (node_id target), delete_later = False\<rparr>,
      propagate_mouse_tracking (node_id target) target st)"

text \<open>
  The body of \<open>eventFilter\<close> below the test of \<open>self._target\<close>: what the event does to the
  target widget.
\<close>

definition filter_event :: "event \<Rightarrow> widget \<Rightarrow> widget" where
  "filter_event ev target =
     (case ev of
        MouseMove g \<Rightarrow>
          (let inside = rect_contains target (mapFromGlobal target g)
           in if inside then
                (let pos = mapFromGlobal target g;
                     t1 = (if pos \<noteq> getattr_pos target
                           then update (target\<lparr>hg_pos := Some pos\<rparr>) else target)
                 in t1\<lparr>hg_hover := Some True\<rparr>)
              else if getattr_hover target then update (target\<lparr>hg_hover := Some False\<rparr>)
              else target)
      | Enter p \<Rightarrow> update (target\<lparr>hg_hover := Some True, hg_pos := Some p\<rparr>)
      | Leave \<Rightarrow> update (target\<lparr>hg_hover := Some False\<rparr>)
      | MouseButtonPress \<Rightarrow> update (target\<lparr>hg_pressed := Some True\<rparr>)
      | MouseButtonRelease \<Rightarrow> update (target\<lparr>hg_pressed := Some False\<rparr>)
      | OtherEvent \<Rightarrow> target)"

text \<open>
  \<open>eventFilter(watched, event)\<close>: the store after the call and the value returned, which
  is that of \<open>QObject.eventFilter\<close>, \<open>False\<close>.
\<close>

definition eventFilter :: "hover_filter \<Rightarrow> nat \<Rightarrow> event \<Rightarrow> store \<Rightarrow> store \<times> bool" where
  "eventFilter flt watched ev st =
     (case filter_target flt of
        None \<Rightarrow> (st, False)
      | Some t \<Rightarrow> (st(t := filter_event ev (st t)), False))"

text \<open>A sequence of events delivered to the filter, each with the widget it arrived on.\<close>

fun deliver :: "hover_filter \<Rightarrow> (nat \<times> event) list \<Rightarrow> store \<Rightarrow> store" where
  "deliver flt [] st = st"
| "deliver flt ((watched, ev) # evs) st = deliver flt evs (fst (eventFilter flt watched ev st))"

subsection \<open>\<open>_draw_hover_gradient\<close>\<close>

datatype qrect = QRect int int int int

datatype path = RectPath qrect | RoundedRectPath qrect int int

text \<open>The colour at position \<open>1.0\<close>: a colour of the widget, or \<open>Qt.transparent\<close>.\<close>

datatype edge_color = EdgeColor qcolor | Transparent

text \<open>
  The \<open>QRadialGradient\<close> as built: centre point, radius, the colour at \<open>0.0\<close> with the
  argument given to \<open>setAlpha\<close>, the colour at \<open>1.0\<close>. Python's floats are modelled as
  reals.
\<close>

record radial_gradient =
  grad_center :: qpoint
  grad_radius :: real
  centre_color :: qcolor
  centre_alpha :: real
  edge :: edge_color

text \<open>
  \<open>_draw_hover_gradient(widget, painter, path, opacity)\<close>: an exception, or the fill of
  \<open>painter.fillPath\<close>, \<open>None\<close> when the function returns without painting.
\<close>

definition draw_hover_gradient ::
  "widget \<Rightarrow> path \<Rightarrow> real \<Rightarrow> error + (path \<times> radial_gradient) option" where
  "draw_hover_gradient w pth opacity =
     (if \<not> getattr_hover w then Inr None
      else case hg_pos w of
        None \<Rightarrow> Inl (AttributeError ''_hg_pos'')
      | Some pos \<Rightarrow>
          if px pos < 0 then Inr None
          else
            (let pressed = getattr_pressed w;
                 colours = getattr_cols w
             in case colours of
                  [] \<Rightarrow> Inl IndexError
                | accent # rest \<Rightarrow>
                    (let radius = real_of_int (max (width w) (height w))
                                    * (if pressed then 0.6 else 0.9);
                         alpha = (if pressed then opacity else opacity * 0.6);
                         e = (if length colours > 1 then EdgeColor (colours ! 1) else Transparent)
                     in Inr (Some (pth,
                          \<lparr>grad_center = pos, grad_radius = radius, centre_color = accent,
                           centre_alpha = alpha, edge = e\<rparr>)))))"

subsection \<open>\<open>_extract_border_radius\<close>\<close>

text \<open>
  The pattern \<open>border-radius\s*:\s*([0-9]+)\<close>. A style text is a \<open>string\<close>, each
  character a code point below 256. \<open>\s\<close> on a Python \<open>str\<close> is Unicode white space: below
  256 these are the code points 9 to 13, 28 to 32, 133 and 160.
\<close>

definition is_space :: "char \<Rightarrow> bool" where
  "is_space c = (let n = (of_char c :: nat)
                 in (9 \<le> n \<and> n \<le> 13) \<or> (28 \<le> n \<and> n \<le> 32) \<or> n = 133 \<or> n = 160)"

definition is_digit :: "char \<Rightarrow> bool" where
  "is_digit c = (let n = (of_char c :: nat) in 48 \<le> n \<and> n \<le> 57)"

text \<open>The literal part of the pattern: the rest of the text after the prefix, if it is one.\<close>

fun strip_literal :: "string \<Rightarrow> string \<Rightarrow> string option" where
  "strip_literal [] s = Some s"
| "strip_literal (p # ps) [] = None"
| "strip_literal (p # ps) (c # cs) = (if p = c then strip_literal ps cs else None)"

text \<open>
  A match of the pattern at the start of the text: the group and the text after the match.
  Both \<open>\s*\<close> and \<open>[0-9]+\<close> are greedy, and what follows each cannot start with a character
  it accepts, so the longest run is the only candidate.
\<close>

definition match_here :: "string \<Rightarrow> (string \<times> string) option" where
  "match_here s =
     (case strip_literal ''border-radius'' s of
        None \<Rightarrow> None
      | Some r1 \<Rightarrow>
          (case dropWhile is_space r1 of
             [] \<Rightarrow> None
           | c # r2 \<Rightarrow>
               if c = CHR '':'' then
                 (let r3 = dropWhile is_space r2;
                      ds = takeWhile is_digit r3
                  in if ds = [] then None else Some (ds, dropWhile is_digit r3))
               else None))"

text \<open>
  \<open>re.findall\<close>: the groups of the non-overlapping matches, from left to right; after a
  match the scan goes on behind it, otherwise at the next character.
\<close>

function findall :: "string \<Rightarrow> string list" where
  "findall [] = []"
| "findall (c # cs) =
     (case match_here (c # cs) of
        Some (g, rest) \<Rightarrow> g # findall rest
      | None \<Rightarrow> findall cs)"
  by pat_completeness auto
termination
proof (relation "measure length")
  show "wf (measure length)"
    by simp
next
  fix c :: char and cs :: string
  show "(cs, c # cs) \<in> measure length"
    by simp
next
  fix c :: char and cs :: string and x2 :: "string \<times> string" and g rest :: string
  assume m: "match_here (c # cs) = Some x2" and x2: "(g, rest) = x2"
  have lit: "strip_literal p s = Some r \<Longrightarrow> length r \<le> length s" for p s r
    by (induction p s rule: strip_literal.induct) (auto split: if_splits)
  have dw: "length (dropWhile P xs) \<le> length xs" for P and xs :: string
    by (induction xs) auto
  from m x2 obtain r1 c2 r2 where
    r1: "strip_literal ''border-radius'' (c # cs) = Some r1" and
    r2: "dropWhile is_space r1 = c2 # r2" and
    rest: "rest = dropWhile is_digit (dropWhile is_space r2)"
    by (auto simp: match_here_def Let_def split: option.splits list.splits if_splits)
  have "length rest \<le> length r2"
    unfolding rest using dw [of is_digit "dropWhile is_space r2"] dw [of is_space r2] by linarith
  moreover have "length r2 < length r1"
    using dw [of is_space r1] r2 by simp
  moreover have "length r1 \<le> length (c # cs)"
    using lit [OF r1] .
  ultimately show "(rest, c # cs) \<in> measure length"
    by simp
qed

text \<open>
  The specification's reading, to compare with the scan: the declarations of a text are
  the groups of the matches of the pattern at all positions of the text, from the first
  position to the last.
\<close>

fun tails :: "string \<Rightarrow> string list" where
  "tails [] = []"
| "tails (c # cs) = (c # cs) # tails cs"

definition declarations :: "string \<Rightarrow> string list" where
  "declarations s = List.map_filter (\<lambda>t. map_option fst (match_here t)) (tails s)"

text \<open>
  \<open>int(text)\<close> on a string of decimal digits. The bound of CPython on the number of
  digits that \<open>int\<close> converts (4300 by default) is not modelled.
\<close>

definition digit_value :: "char \<Rightarrow> int" where
  "digit_value c = int (of_char c) - 48"

definition int_of_digits :: "string \<Rightarrow> int" where
  "int_of_digits ds = foldl (\<lambda>n c. 10 * n + digit_value c) 0 ds"

text \<open>The loop over \<open>sources\<close>: the first source with a match decides.\<close>

fun scan_sources :: "string list \<Rightarrow> int" where
  "scan_sources [] = 0"
| "scan_sources (source # sources) =
     (let matches = findall source
      in if matches \<noteq> [] then int_of_digits (last matches) else scan_sources sources)"

text \<open>
  \<open>_extract_border_radius(widget)\<close>. \<open>app\<close> is the style sheet of
  \<open>QApplication.instance()\<close>, \<open>None\<close> when there is no application object.
\<close>

definition extract_border_radius :: "widget \<Rightarrow> string option \<Rightarrow> int" where
  "extract_border_radius w app =
     scan_sources ([styleSheet w] @ (case app of None \<Rightarrow> [] | Some a \<Rightarrow> [a]))"

subsection \<open>\<open>patched_paint\<close> and \<open>enable_hover_gradient\<close>\<close>

text \<open>What a paint routine has drawn: the widget's own drawing, fills of a path.\<close>

datatype draw_op = OriginalDrawing | FillPath path radial_gradient

text \<open>\<open>self.rect().adjusted(0, 0, -1, -1)\<close>.\<close>

definition adjusted_rect :: "widget \<Rightarrow> qrect" where
  "adjusted_rect w = QRect 0 0 (width w - 1) (height w - 1)"

text \<open>
  Lines 144 to 147 of \<open>patched_paint\<close>: the radius, read from \<open>_hg_radius\<close> or extracted
  and stored there.
\<close>

definition paint_radius :: "string option \<Rightarrow> widget \<Rightarrow> widget \<times> int" where
  "paint_radius app w =
     (case hg_radius w of
        None \<Rightarrow> (let radius = extract_border_radius w app in (w\<lparr>hg_radius := Some radius\<rparr>, radius))
      | Some radius \<Rightarrow> (w, radius))"

text \<open>Lines 148 to 152: the clip path.\<close>

definition clip_path :: "widget \<Rightarrow> int \<Rightarrow> path" where
  "clip_path w radius =
     (if radius > 0 then RoundedRectPath (adjusted_rect w) radius radius
      else RectPath (adjusted_rect w))"

text \<open>
  \<open>patched_paint(self, event)\<close>, closed over \<open>opacity\<close> and \<open>original_paint\<close>: the widget
  after the call, and an exception or the drawing.
\<close>

definition patched_paint ::
  "real \<Rightarrow> (widget \<Rightarrow> widget \<times> (error + draw_op list)) \<Rightarrow> string option \<Rightarrow> widget \<Rightarrow>
   widget \<times> (error + draw_op list)" where
  "patched_paint opacity original_paint app w =
     (case original_paint w of
        (w1, Inl e) \<Rightarrow> (w1, Inl e)
      | (w1, Inr drawn) \<Rightarrow>
          (case paint_radius app w1 of
             (w2, radius) \<Rightarrow>
               (case draw_hover_gradient w2 (clip_path w2 radius) opacity of
                  Inl e \<Rightarrow> (w2, Inl e)
                | Inr None \<Rightarrow> (w2, Inr drawn)
                | Inr (Some (pth, g)) \<Rightarrow> (w2, Inr (drawn @ [FillPath pth g])))))"

text \<open>Running a paint routine; the widget's own routine draws and changes nothing else.\<close>

fun run_paint :: "paint_routine \<Rightarrow> string option \<Rightarrow> widget \<Rightarrow> widget \<times> (error + draw_op list)" where
  "run_paint OriginalPaint app w = (w, Inr [OriginalDrawing])"
| "run_paint (PatchedPaint opacity orig) app w = patched_paint opacity (run_paint orig app) app w"

text \<open>The argument \<open>colours\<close>: \<open>None\<close>, a string, a list of strings.\<close>

datatype colours_arg = NoColours | OneColour string | ColourList "string list"

text \<open>\<open>enable_hover_gradient(widget, colours, opacity)\<close>.\<close>

definition enable_hover_gradient :: "wtree \<Rightarrow> colours_arg \<Rightarrow> real \<Rightarrow> store \<Rightarrow> store" where
  "enable_hover_gradient wdg colours opacity st =
     (let i = node_id wdg
      in if getattr_enabled (st i) then st
         else
           (let opacity' = 255 * opacity;
                colours' = (case colours of
                              NoColours \<Rightarrow> [''#ffffff'']
                            | OneColour c \<Rightarrow> [c]
                            | ColourList cs \<Rightarrow> cs);
                st1 = st(i := (st i)\<lparr>hg_enabled := Some True,
                                      hg_cols := Some (map QColor colours'),
                                      hg_hover := Some False,
                                      hg_pressed := Some False,
                                      hg_pos := Some (QPoint (- 1) (- 1))\<rparr>);
                original_paint = paintEvent (st1 i);
                st2 = st1(i := (st1 i)\<lparr>paintEvent := PatchedPaint opacity' original_paint,
                                        hg_orig_paint := Some original_paint\<rparr>)
            in case HoverGradientFilter_init wdg st2 of
                 (hover_filter, st3) \<Rightarrow>
                   st3(i := (st3 i)\<lparr>hg_filter := Some hover_filter,
                                     event_filters := installEventFilter i (event_filters (st3 i)),
                                     styledBackground := True,
                                     mouseTracking := True\<rparr>)))"

text \<open>
  The alpha ceiling a widget carries: the \<open>opacity\<close> its installed \<open>patched_paint\<close> is
  closed over, if one is installed.
\<close>

definition stored_opacity :: "widget \<Rightarrow> real option" where
  "stored_opacity w =
     (case paintEvent w of OriginalPaint \<Rightarrow> None | PatchedPaint opacity orig \<Rightarrow> Some opacity)"

text \<open>
  The specification's words for the ceiling, \<open>255 * clamp(opacity, 0, 1)\<close>, to compare with
  what \<open>enable_hover_gradient\<close> computes.
\<close>

definition spec_clamp :: "real \<Rightarrow> real \<Rightarrow> real \<Rightarrow> real" where
  "spec_clamp x lo hi = max lo (min hi x)"

definition spec_opacity :: "real \<Rightarrow> real" where
  "spec_opacity opacity = 255 * spec_clamp opacity 0 1"

subsection \<open>Concrete inputs for the examples\<close>

text \<open>
  A widget of 100 by 40 pixels at global position \<open>(10, 10)\<close>, with a style sheet of two
  \<open>border-radius\<close> declarations and none of the module's attributes.
\<close>

definition plain_widget :: widget where
  "plain_widget =
     \<lparr>width = 100, height = 40, global_origin = QPoint 10 10,
      styleSheet = ''QFrame { border-radius: 4px; } QFrame#card { border-radius : 12px; }'',
      mouseTracking = False, styledBackground = False, event_filters = [], update_requests = 0,
      paintEvent = OriginalPaint, hg_enabled = None, hg_cols = None, hg_hover = None,
      hg_pressed = None, hg_pos = None, hg_radius = None, hg_orig_paint = None,
      hg_filter = None\<rparr>"

text \<open>The same widget as \<open>enable_hover_gradient\<close> leaves it, with one accent colour.\<close>

definition enabled_widget :: widget where
  "enabled_widget =
     enable_hover_gradient (WNode 0 []) (OneColour ''#ff0000'') 1 (\<lambda>i. plain_widget) 0"

section \<open>Properties of the icon engine\<close>

text \<open>
  C4. For every icon name, the filled variant uses the entry of the filled table when the
  name is there and otherwise the entry of the outline table, without raising; the
  non-filled variant reads the outline table directly, whatever the filled table holds; and
  the constructor raises, always a \<open>LookupError\<close>, exactly when the name is absent from the
  table ultimately consulted.
\<close>

theorem icon_lookup_resolution:
  "(filled \<and> ident \<in> dom filled_tbl \<longrightarrow>
      (\<exists>svg. MaterialIconSVG_init outline filled_tbl ident filled = Inr svg
             \<and> Some (svg_source svg) = filled_tbl ident))
   \<and> (filled \<and> ident \<notin> dom filled_tbl \<and> ident \<in> dom outline \<longrightarrow>
      (\<exists>svg. MaterialIconSVG_init outline filled_tbl ident filled = Inr svg
             \<and> Some (svg_source svg) = outline ident))
   \<and> (\<not> filled \<longrightarrow>
        MaterialIconSVG_init outline filled_tbl ident filled
          = MaterialIconSVG_init outline Map.empty ident True
      \<and> (ident \<in> dom outline \<longrightarrow>
          (\<exists>svg. MaterialIconSVG_init outline filled_tbl ident filled = Inr svg
                 \<and> Some (svg_source svg) = outline ident)))
   \<and> ((\<exists>e. MaterialIconSVG_init outline filled_tbl ident filled = Inl e)
        \<longleftrightarrow> ident \<notin> dom (consulted_table outline filled_tbl ident filled))
   \<and> (\<forall>e. MaterialIconSVG_init outline filled_tbl ident filled = Inl e \<longrightarrow> is_LookupError e)"
  by (auto simp: MaterialIconSVG_init_def consulted_table_def subscript_def Let_def
           split: option.splits)

theorem icon_lookup_resolution_witness:
  "(\<exists>svg. MaterialIconSVG_init [''settings'' \<mapsto> ''<path d=1/>'', ''close'' \<mapsto> ''<path d=2/>'']
            [''close'' \<mapsto> ''<path d=3/>''] ''settings'' True = Inr svg
          \<and> Some (svg_source svg) = Some ''<path d=1/>'')
   \<and> (\<exists>svg. MaterialIconSVG_init [''settings'' \<mapsto> ''<path d=1/>'', ''close'' \<mapsto> ''<path d=2/>'']
            [''close'' \<mapsto> ''<path d=3/>''] ''close'' True = Inr svg
          \<and> Some (svg_source svg) = Some ''<path d=3/>'')
   \<and> (\<exists>e. MaterialIconSVG_init [''settings'' \<mapsto> ''<path d=1/>'', ''close'' \<mapsto> ''<path d=2/>'']
            [''close'' \<mapsto> ''<path d=3/>''] ''nonexistent_icon_xyz'' True = Inl e)"
  using icon_lookup_resolution [of True "''settings''" "[''close'' \<mapsto> ''<path d=3/>'']"
          "[''settings'' \<mapsto> ''<path d=1/>'', ''close'' \<mapsto> ''<path d=2/>'']"]
        icon_lookup_resolution [of True "''close''" "[''close'' \<mapsto> ''<path d=3/>'']"
          "[''settings'' \<mapsto> ''<path d=1/>'', ''close'' \<mapsto> ''<path d=2/>'']"]
        icon_lookup_resolution [of True "''nonexistent_icon_xyz''" "[''close'' \<mapsto> ''<path d=3/>'']"
          "[''settings'' \<mapsto> ''<path d=1/>'', ''close'' \<mapsto> ''<path d=2/>'']"]
  by (simp add: consulted_table_def)

text \<open>
  C9. For every icon name known to the table consulted, \<open>material_icon\<close> with the raster
  kind returns a raster of exactly the requested size, given as a tuple or as a \<open>QSize\<close>,
  and of 50 by 50 pixels when no size is given; and the call raises, a \<open>TypeError\<close>,
  exactly when the requested kind is neither \<open>QIcon\<close> nor \<open>QPixmap\<close>.
\<close>

theorem raster_size_and_type_error:
  assumes known: "icon_name \<in> dom (consulted_table outline filled_tbl icon_name filled)"
  shows "(\<exists>p. material_icon outline filled_tbl icon_name (Some (SizeTuple w h)) color rot mode filled
                 QPixmap_type = Inr (QPixmap p) \<and> pix_width p = w \<and> pix_height p = h)
       \<and> (\<exists>p. material_icon outline filled_tbl icon_name (Some (QSize w h)) color rot mode filled
                 QPixmap_type = Inr (QPixmap p) \<and> pix_width p = w \<and> pix_height p = h)
       \<and> (\<exists>p. material_icon outline filled_tbl icon_name None color rot mode filled
                 QPixmap_type = Inr (QPixmap p) \<and> pix_width p = 50 \<and> pix_height p = 50)
       \<and> ((\<exists>e. material_icon outline filled_tbl icon_name size_opt color rot mode filled ty = Inl e
                \<and> is_TypeError e)
            \<longleftrightarrow> ty \<noteq> QIcon_type \<and> ty \<noteq> QPixmap_type)
       \<and> ((\<exists>e. material_icon outline filled_tbl icon_name size_opt color rot mode filled ty = Inl e)
            \<longleftrightarrow> ty \<noteq> QIcon_type \<and> ty \<noteq> QPixmap_type)"
proof -
  from known have "\<exists>svg. MaterialIconSVG_init outline filled_tbl icon_name filled = Inr svg"
    by (cases filled; cases "icon_name \<in> dom filled_tbl")
       (auto simp: MaterialIconSVG_init_def consulted_table_def subscript_def)
  then obtain svg where
    svg: "MaterialIconSVG_init outline filled_tbl icon_name filled = Inr svg" ..
  show ?thesis
    by (auto simp: material_icon_def svg pixmap_def Let_def split: option.splits size_arg.splits)
qed

theorem raster_size_and_type_error_witness:
  "(\<exists>p. material_icon [''close'' \<mapsto> ''<path d=2/>''] Map.empty ''close'' (Some (SizeTuple 32 32))
           None 0 None False QPixmap_type = Inr (QPixmap p) \<and> pix_width p = 32 \<and> pix_height p = 32)
   \<and> (\<exists>p. material_icon [''close'' \<mapsto> ''<path d=2/>''] Map.empty ''close'' None
           None 0 None False QPixmap_type = Inr (QPixmap p) \<and> pix_width p = 50 \<and> pix_height p = 50)
   \<and> (\<exists>e. material_icon [''close'' \<mapsto> ''<path d=2/>''] Map.empty ''close'' None
           None 0 None False (Other_type ''str'') = Inl e \<and> is_TypeError e)"
proof -
  have known: "''close'' \<in> dom (consulted_table [''close'' \<mapsto> ''<path d=2/>''] Map.empty ''close'' False)"
    by (simp add: consulted_table_def)
  show ?thesis
    using raster_size_and_type_error [OF known, of 32 32 None 0 None None "Other_type ''str''"]
    by simp
qed

text \<open>
  The colour \<open>paint\<close> resolves, with the two constructors of \<open>Color\<close> as modelled. No
  colour and mode disabled: the palette's disabled text colour. No colour otherwise: the
  palette's text colour. A hex string: the colour parsed from it, whatever the palette
  and the mode. A dark/light mapping: the palette's text colour. A tuple of four
  components or a \<open>QColor\<close>: the given components. Any other object: opaque black, and
  no error.
\<close>

lemma from_rgba_getRgb: "Color_from_rgba (getRgb c) = Inr c"
  by (cases c) (simp add: Color_from_rgba_def)

lemma from_hex_black: "Color_from_hex ''#000000'' = Inr (0, 0, 0, 255)"
  by (simp add: Color_from_hex_def hex_digit_def)

lemma from_hex_red: "Color_from_hex ''#ff0000'' = Inr (255, 0, 0, 255)"
  by (simp add: Color_from_hex_def hex_digit_def)

lemma color_resolution_by_shape:
  "paint_color Color_from_hex Color_from_rgba palette None Disabled
      = Inr (disabled_text_color palette)
   \<and> (mode \<noteq> Disabled \<longrightarrow>
        paint_color Color_from_hex Color_from_rgba palette None mode = Inr (text_color palette))
   \<and> paint_color Color_from_hex Color_from_rgba palette (Some (HexStr s)) mode = Color_from_hex s
   \<and> paint_color Color_from_hex Color_from_rgba palette (Some (HexStr ''#ff0000'')) mode
        = Inr (255, 0, 0, 255)
   \<and> paint_color Color_from_hex Color_from_rgba palette (Some (AppearanceDict d)) mode
        = Inr (text_color palette)
   \<and> paint_color Color_from_hex Color_from_rgba palette (Some (RgbTuple [r, g, b, a])) mode
        = Inr (r, g, b, a)
   \<and> paint_color Color_from_hex Color_from_rgba palette (Some (NativeColor r g b a)) mode
        = Inr (r, g, b, a)
   \<and> paint_color Color_from_hex Color_from_rgba palette (Some OtherObject) mode
        = Inr (0, 0, 0, 255)"
  by (simp add: paint_color_def from_rgba_getRgb from_hex_black from_hex_red)
     (simp add: Color_from_rgba_def)


section \<open>Properties of the hover gradient\<close>

subsection \<open>Auxiliary facts\<close>

lemma propagate_leaf: "propagate_mouse_tracking flt (WNode i []) st = st"
  by (subst propagate_mouse_tracking.simps) simp

text \<open>
  The propagation writes two fields of the widgets it visits, \<open>mouseTracking\<close> and
  \<open>event_filters\<close>, and nothing else of any widget.
\<close>

lemma propagate_fields:
  "(propagate_mouse_tracking flt wdg st j)\<lparr>mouseTracking := a, event_filters := b\<rparr>
     = (st j)\<lparr>mouseTracking := a, event_filters := b\<rparr>"
proof (induction flt wdg st arbitrary: j rule: propagate_mouse_tracking.induct)
  case (1 flt wdg st)
  let ?visit = "\<lambda>child s.
             propagate_mouse_tracking flt child
               (s(node_id child :=
                    (s (node_id child))\<lparr>mouseTracking := True,
                       event_filters := installEventFilter flt (event_filters (s (node_id child)))\<rparr>))"
  have step: "set xs \<subseteq> set (findChildren wdg) \<Longrightarrow>
     (fold ?visit xs s0 j)\<lparr>mouseTracking := a, event_filters := b\<rparr>
       = (s0 j)\<lparr>mouseTracking := a, event_filters := b\<rparr>" for xs s0
  proof (induction xs arbitrary: s0)
    case Nil
    show ?case by simp
  next
    case (Cons x xs)
    let ?s1 = "s0(node_id x :=
                    (s0 (node_id x))\<lparr>mouseTracking := True,
                       event_filters := installEventFilter flt (event_filters (s0 (node_id x)))\<rparr>)"
    from Cons.prems have x: "x \<in> set (findChildren wdg)" and xs: "set xs \<subseteq> set (findChildren wdg)"
      by auto
    have first: "(?s1 j)\<lparr>mouseTracking := a, event_filters := b\<rparr>
                   = (s0 j)\<lparr>mouseTracking := a, event_filters := b\<rparr>"
      by simp
    have inner: "(?visit x s0 j)\<lparr>mouseTracking := a, event_filters := b\<rparr>
                   = (?s1 j)\<lparr>mouseTracking := a, event_filters := b\<rparr>"
      using "1.IH" [OF x, of s0 j] .
    have later: "(fold ?visit xs (?visit x s0) j)\<lparr>mouseTracking := a, event_filters := b\<rparr>
                   = (?visit x s0 j)\<lparr>mouseTracking := a, event_filters := b\<rparr>"
      using Cons.IH [OF xs, of "?visit x s0"] .
    have "fold ?visit (x # xs) s0 = fold ?visit xs (?visit x s0)"
      by simp
    then show ?case
      using first inner later by (simp del: fun_upd_apply)
  qed
  show ?case
    using step [of "findChildren wdg" st] by (subst propagate_mouse_tracking.simps) simp
qed

lemma propagate_paintEvent:
  "paintEvent (propagate_mouse_tracking flt wdg st j) = paintEvent (st j)"
proof -
  have "paintEvent (propagate_mouse_tracking flt wdg st j)
          = paintEvent ((propagate_mouse_tracking flt wdg st j)
                          \<lparr>mouseTracking := True, event_filters := []\<rparr>)"
    by simp
  also have "\<dots> = paintEvent ((st j)\<lparr>mouseTracking := True, event_filters := []\<rparr>)"
    by (simp only: propagate_fields)
  finally show ?thesis by simp
qed

lemma propagate_hg_enabled:
  "hg_enabled (propagate_mouse_tracking flt wdg st j) = hg_enabled (st j)"
proof -
  have "hg_enabled (propagate_mouse_tracking flt wdg st j)
          = hg_enabled ((propagate_mouse_tracking flt wdg st j)
                          \<lparr>mouseTracking := True, event_filters := []\<rparr>)"
    by simp
  also have "\<dots> = hg_enabled ((st j)\<lparr>mouseTracking := True, event_filters := []\<rparr>)"
    by (simp only: propagate_fields)
  finally show ?thesis by simp
qed

lemma enable_marks:
  "getattr_enabled (enable_hover_gradient wdg colours opacity st (node_id wdg))"
  by (simp add: enable_hover_gradient_def Let_def HoverGradientFilter_init_def
        getattr_enabled_def propagate_hg_enabled)

lemma enabled_widget_eq:
  "enabled_widget =
     plain_widget\<lparr>mouseTracking := True, styledBackground := True, event_filters := [0],
        paintEvent := PatchedPaint 255 OriginalPaint, hg_enabled := Some True,
        hg_cols := Some [QColor ''#ff0000''], hg_hover := Some False, hg_pressed := Some False,
        hg_pos := Some (QPoint (- 1) (- 1)), hg_orig_paint := Some OriginalPaint,
        hg_filter := Some \<lparr>filter_target = Some 0, delete_later = False\<rparr>\<rparr>"
  by (simp add: enabled_widget_def enable_hover_gradient_def plain_widget_def getattr_enabled_def
        HoverGradientFilter_init_def installEventFilter_def Let_def propagate_leaf)

lemma deliver_snoc:
  "deliver flt (evs @ [(watched, ev)]) st = fst (eventFilter flt watched ev (deliver flt evs st))"
  by (induction evs arbitrary: st) auto

lemma eventFilter_live:
  "filter_target flt = Some t \<Longrightarrow>
     eventFilter flt watched ev st = (st(t := filter_event ev (st t)), False)"
  by (simp add: eventFilter_def)

text \<open>
  The matcher accepts exactly the texts that start with the literal, white space, a colon,
  white space and a longest non-empty run of digits.
\<close>

lemma strip_literal_iff: "strip_literal p s = Some r \<longleftrightarrow> s = p @ r"
  by (induction p s rule: strip_literal.induct) auto

lemma space_not_b: "is_space c \<Longrightarrow> c \<noteq> CHR ''b''"
  by (auto simp: is_space_def)

lemma digit_not_b: "is_digit c \<Longrightarrow> c \<noteq> CHR ''b''"
  by (auto simp: is_digit_def)

lemma match_here_shape:
  assumes "match_here s = Some (ds, rest)"
  shows "\<exists>ws1 ws2. s = ''border-radius'' @ ws1 @ CHR '':'' # ws2 @ ds @ rest
           \<and> (\<forall>c\<in>set ws1. is_space c) \<and> (\<forall>c\<in>set ws2. is_space c)
           \<and> ds \<noteq> [] \<and> (\<forall>c\<in>set ds. is_digit c)
           \<and> (rest = [] \<or> \<not> is_digit (hd rest))"
proof -
  from assms obtain r1 r2 where
    r1: "strip_literal ''border-radius'' s = Some r1" and
    r2: "dropWhile is_space r1 = CHR '':'' # r2" and
    ds: "ds = takeWhile is_digit (dropWhile is_space r2)" and
    ne: "ds \<noteq> []" and
    rest: "rest = dropWhile is_digit (dropWhile is_space r2)"
    by (auto simp: match_here_def Let_def split: option.splits list.splits if_splits)
  let ?ws1 = "takeWhile is_space r1" and ?ws2 = "takeWhile is_space r2"
  have s: "s = ''border-radius'' @ r1"
    using r1 by (simp only: strip_literal_iff)
  have "r1 = ?ws1 @ CHR '':'' # r2"
    using takeWhile_dropWhile_id [of is_space r1] r2 by simp
  moreover have "r2 = ?ws2 @ ds @ rest"
    using takeWhile_dropWhile_id [of is_space r2]
          takeWhile_dropWhile_id [of is_digit "dropWhile is_space r2"] ds rest by simp
  ultimately have "s = ''border-radius'' @ ?ws1 @ CHR '':'' # ?ws2 @ ds @ rest"
    using s by simp
  moreover have "\<forall>c\<in>set ?ws1. is_space c" "\<forall>c\<in>set ?ws2. is_space c"
    by (auto dest: set_takeWhileD)
  moreover have "\<forall>c\<in>set ds. is_digit c"
    unfolding ds by (auto dest: set_takeWhileD)
  moreover have "rest = [] \<or> \<not> is_digit (hd rest)"
    unfolding rest using hd_dropWhile [of is_digit "dropWhile is_space r2"] by blast
  ultimately show ?thesis
    using ne by blast
qed

lemma match_here_complete:
  assumes ws1: "\<forall>c\<in>set ws1. is_space c" and ws2: "\<forall>c\<in>set ws2. is_space c"
    and ne: "ds \<noteq> []" and ds: "\<forall>c\<in>set ds. is_digit c"
    and rest: "rest = [] \<or> \<not> is_digit (hd rest)"
  shows "match_here (''border-radius'' @ ws1 @ CHR '':'' # ws2 @ ds @ rest) = Some (ds, rest)"
proof -
  have colon: "\<not> is_space CHR '':''"
    by (simp add: is_space_def)
  have sd: "\<not> is_space (hd ds)"
    using ne ds by (cases ds) (auto simp: is_space_def is_digit_def Let_def)
  have a: "dropWhile is_space (ws1 @ CHR '':'' # ws2 @ ds @ rest) = CHR '':'' # ws2 @ ds @ rest"
    using ws1 colon by (simp add: dropWhile_append)
  have b: "dropWhile is_space (ws2 @ ds @ rest) = ds @ rest"
    using ws2 sd ne by (cases ds) (auto simp: dropWhile_append)
  have c: "takeWhile is_digit (ds @ rest) = ds"
    using ds rest by (cases rest) (auto simp: takeWhile_append)
  have d: "dropWhile is_digit (ds @ rest) = rest"
    using ds rest by (cases rest) (auto simp: dropWhile_append)
  have lit: "strip_literal ''border-radius'' (''border-radius'' @ ws1 @ CHR '':'' # ws2 @ ds @ rest)
               = Some (ws1 @ CHR '':'' # ws2 @ ds @ rest)"
    by (simp only: strip_literal_iff)
  show ?thesis
    unfolding match_here_def lit using a b c d ne by (simp add: Let_def)
qed

text \<open>
  No match starts inside another: the scan of \<open>findall\<close>, which goes on behind each match,
  finds the match at every position that has one.
\<close>

lemma no_match_without_b: "c \<noteq> CHR ''b'' \<Longrightarrow> match_here (c # cs) = None"
  by (simp add: match_here_def)

lemma declarations_skip:
  "\<forall>c\<in>set mid. c \<noteq> CHR ''b'' \<Longrightarrow> declarations (mid @ rest) = declarations rest"
  by (induction mid) (auto simp: declarations_def no_match_without_b)

lemma match_here_skipped:
  assumes "match_here (c # cs) = Some (ds, rest)"
  shows "\<exists>mid. cs = mid @ rest \<and> (\<forall>c\<in>set mid. c \<noteq> CHR ''b'')"
proof -
  from match_here_shape [OF assms] obtain ws1 ws2 where
    s: "c # cs = ''border-radius'' @ ws1 @ CHR '':'' # ws2 @ ds @ rest" and
    ws1: "\<forall>c\<in>set ws1. is_space c" and ws2: "\<forall>c\<in>set ws2. is_space c" and
    ds: "\<forall>c\<in>set ds. is_digit c"
    by blast
  from s have "cs = (''order-radius'' @ ws1 @ CHR '':'' # ws2 @ ds) @ rest"
    by simp
  moreover have "\<forall>c\<in>set (''order-radius'' @ ws1 @ CHR '':'' # ws2 @ ds). c \<noteq> CHR ''b''"
    using ws1 ws2 ds by (auto dest: space_not_b digit_not_b)
  ultimately show ?thesis
    by blast
qed

lemma findall_declarations: "findall s = declarations s"
proof (induction s rule: findall.induct)
  case 1
  show ?case by (simp add: declarations_def)
next
  case (2 c cs)
  show ?case
  proof (cases "match_here (c # cs)")
    case None
    then show ?thesis
      using 2 by (simp add: declarations_def)
  next
    case (Some m)
    obtain g rest where m: "m = (g, rest)"
      by (cases m)
    from match_here_skipped [of c cs g rest] Some m obtain mid where
      mid: "cs = mid @ rest" "\<forall>c\<in>set mid. c \<noteq> CHR ''b''"
      by auto
    have "findall (c # cs) = g # findall rest"
      using Some m by simp
    also have "\<dots> = g # declarations rest"
      using "2.IH"(2) [OF Some m [symmetric]] by simp
    also have "\<dots> = g # declarations cs"
      using declarations_skip [OF mid(2), of rest] mid(1) by simp
    also have "\<dots> = declarations (c # cs)"
      using Some m by (simp add: declarations_def)
    finally show ?thesis .
  qed
qed

text \<open>With an empty list of accent colours a hovering widget's paint raises at \<open>colours[0]\<close>.\<close>

lemma overlay_without_stops_raises:
  "getattr_hover w \<Longrightarrow> hg_pos w = Some pos \<Longrightarrow> 0 \<le> px pos \<Longrightarrow> hg_cols w = Some [] \<Longrightarrow>
     draw_hover_gradient w pth opacity = Inl IndexError"
  by (simp add: draw_hover_gradient_def getattr_cols_def)

lemma draw_ignores_style:
  "draw_hover_gradient (w\<lparr>styleSheet := s\<rparr>) pth opacity = draw_hover_gradient w pth opacity"
  by (simp add: draw_hover_gradient_def getattr_hover_def getattr_pressed_def getattr_cols_def
        Let_def split: option.splits list.splits)

lemma draw_ignores_radius:
  "draw_hover_gradient (w\<lparr>hg_radius := r\<rparr>) pth opacity = draw_hover_gradient w pth opacity"
  by (simp add: draw_hover_gradient_def getattr_hover_def getattr_pressed_def getattr_cols_def
        Let_def split: option.splits list.splits)

lemma clip_path_ignores_style: "clip_path (w\<lparr>styleSheet := s\<rparr>) r = clip_path w r"
  by (simp add: clip_path_def adjusted_rect_def)

lemma filter_event_keeps_radius: "hg_radius (filter_event ev w) = hg_radius w"
  by (cases ev) (auto simp: filter_event_def update_def Let_def)

subsection \<open>Attachment\<close>

text \<open>
  C1, as the code has it. On a widget not yet marked, \<open>enable_hover_gradient\<close> stores the
  ceiling \<open>255 * opacity\<close>, without clamping the multiplier. The stored value lies in
  \<open>[0, 255]\<close> exactly when the multiplier lies in \<open>[0, 1]\<close>, and there it is the
  specification's \<open>255 * clamp(opacity, 0, 1)\<close>.
\<close>

theorem stored_opacity_unclamped:
  assumes fresh: "\<not> getattr_enabled (st (node_id wdg))"
  shows "stored_opacity (enable_hover_gradient wdg colours opacity st (node_id wdg))
           = Some (255 * opacity)
       \<and> ((0 \<le> 255 * opacity \<and> 255 * opacity \<le> 255) \<longleftrightarrow> (0 \<le> opacity \<and> opacity \<le> 1))
       \<and> (0 \<le> opacity \<and> opacity \<le> 1 \<longrightarrow> 255 * opacity = spec_opacity opacity)"
  using fresh
  by (simp add: enable_hover_gradient_def Let_def HoverGradientFilter_init_def
        stored_opacity_def propagate_paintEvent spec_opacity_def spec_clamp_def)

theorem stored_opacity_unclamped_witness:
  "stored_opacity (enable_hover_gradient (WNode 0 [WNode 1 []]) (OneColour ''#ff0000'') (1 / 2)
      (\<lambda>i. plain_widget) 0) = Some (255 / 2)
   \<and> 255 * (1 / 2) = spec_opacity (1 / 2)"
  using stored_opacity_unclamped [where st = "\<lambda>i. plain_widget" and wdg = "WNode 0 [WNode 1 []]"
          and colours = "OneColour ''#ff0000''" and opacity = "1 / 2"]
  by (simp add: getattr_enabled_def plain_widget_def)

text \<open>
  The claim C1 as stated fails: with the multiplier 2 the stored ceiling is 510, where the
  specification's formula gives 255.
\<close>

theorem stored_opacity_counterexample:
  "stored_opacity (enable_hover_gradient (WNode 0 []) NoColours 2 (\<lambda>i. plain_widget) 0) = Some 510
   \<and> spec_opacity 2 = 255
   \<and> \<not> (510 \<le> (255 :: real))"
  by (simp add: enable_hover_gradient_def Let_def HoverGradientFilter_init_def
        stored_opacity_def propagate_leaf spec_opacity_def spec_clamp_def plain_widget_def
        getattr_enabled_def)

text \<open>
  C10. A second call of \<open>enable_hover_gradient\<close> on the same widget, with any colours and
  opacity, finds the marker set by the first and leaves the whole store as the first call
  left it: accent stops, ceiling, paint wrapper and filter included. The function has no
  error result.
\<close>

theorem enable_idempotent:
  "enable_hover_gradient wdg colours2 opacity2 (enable_hover_gradient wdg colours1 opacity1 st)
     = enable_hover_gradient wdg colours1 opacity1 st"
proof -
  have "getattr_enabled (enable_hover_gradient wdg colours1 opacity1 st (node_id wdg))"
    by (rule enable_marks)
  then show ?thesis
    by (subst enable_hover_gradient_def) (simp add: Let_def)
qed

theorem enable_idempotent_witness:
  "enable_hover_gradient (WNode 0 []) (ColourList [''#00ff00'', ''#0000ff'']) (1 / 4)
      (enable_hover_gradient (WNode 0 []) (OneColour ''#ff0000'') 1 (\<lambda>i. plain_widget)) 0
     = enabled_widget
   \<and> hg_cols enabled_widget = Some [QColor ''#ff0000'']
   \<and> stored_opacity enabled_widget = Some 255"
  using enable_idempotent [of "WNode 0 []" "ColourList [''#00ff00'', ''#0000ff'']" "1 / 4"
          "OneColour ''#ff0000''" 1 "\<lambda>i. plain_widget"]
  by (simp add: enabled_widget_def [symmetric] enabled_widget_eq stored_opacity_def)

subsection \<open>The listener\<close>

text \<open>
  C3. After any sequence of events \<open>evs\<close> delivered to a live filter with target \<open>t\<close>,
  one more event, arriving on any widget \<open>watched\<close>, changes the state of \<open>t\<close> only, and
  as if it had arrived on \<open>t\<close> itself. A move inside the target's bounds sets hovering,
  stores the position and requests a repaint when the position differs from the stored
  one, and does neither when it is the same. A move outside the bounds clears hovering and
  requests a repaint only if the widget was hovering. An enter sets hovering, stores the
  event's position and requests a repaint. Press and release set and clear the pressed
  flag, each with a repaint request.
\<close>

theorem listener_transitions:
  assumes live: "filter_target flt = Some t"
  shows "let st = deliver flt evs st0;
             st' = deliver flt (evs @ [(watched, ev)]) st0;
             w = st t; w' = st' t
         in (\<forall>j. j \<noteq> t \<longrightarrow> st' j = st j)
          \<and> st' = deliver flt (evs @ [(t, ev)]) st0
          \<and> (\<forall>g. ev = MouseMove g \<and> rect_contains w (mapFromGlobal w g) \<longrightarrow>
                getattr_hover w'
              \<and> (mapFromGlobal w g \<noteq> getattr_pos w \<longrightarrow>
                   hg_pos w' = Some (mapFromGlobal w g)
                 \<and> update_requests w' = Suc (update_requests w))
              \<and> (mapFromGlobal w g = getattr_pos w \<longrightarrow>
                   hg_pos w' = hg_pos w \<and> update_requests w' = update_requests w))
          \<and> (\<forall>g. ev = MouseMove g \<and> \<not> rect_contains w (mapFromGlobal w g) \<longrightarrow>
                \<not> getattr_hover w' \<and> hg_pos w' = hg_pos w
              \<and> update_requests w'
                  = (if getattr_hover w then Suc (update_requests w) else update_requests w))
          \<and> (\<forall>p. ev = Enter p \<longrightarrow>
                getattr_hover w' \<and> hg_pos w' = Some p
              \<and> update_requests w' = Suc (update_requests w))
          \<and> (ev = MouseButtonPress \<longrightarrow>
                getattr_pressed w' \<and> update_requests w' = Suc (update_requests w))
          \<and> (ev = MouseButtonRelease \<longrightarrow>
                \<not> getattr_pressed w' \<and> update_requests w' = Suc (update_requests w))"
  by (auto simp: deliver_snoc eventFilter_live [OF live] Let_def filter_event_def update_def
        getattr_hover_def getattr_pressed_def)

theorem listener_transitions_witness:
  "getattr_hover
     (deliver \<lparr>filter_target = Some 0, delete_later = False\<rparr>
        ([(1, Enter (QPoint 3 4))] @ [(2, MouseMove (QPoint 40 30))]) (\<lambda>i. enabled_widget) 0)
   \<and> hg_pos
     (deliver \<lparr>filter_target = Some 0, delete_later = False\<rparr>
        ([(1, Enter (QPoint 3 4))] @ [(2, MouseMove (QPoint 40 30))]) (\<lambda>i. enabled_widget) 0)
       = Some (QPoint 30 20)
   \<and> update_requests
     (deliver \<lparr>filter_target = Some 0, delete_later = False\<rparr>
        ([(1, Enter (QPoint 3 4))] @ [(2, MouseMove (QPoint 40 30))]) (\<lambda>i. enabled_widget) 0)
       = 2
   \<and> deliver \<lparr>filter_target = Some 0, delete_later = False\<rparr>
        ([(1, Enter (QPoint 3 4))] @ [(2, MouseMove (QPoint 40 30))]) (\<lambda>i. enabled_widget) 1
       = enabled_widget"
  using listener_transitions [where flt = "\<lparr>filter_target = Some 0, delete_later = False\<rparr>"
          and t = 0 and evs = "[(1, Enter (QPoint 3 4))]" and watched = 2
          and ev = "MouseMove (QPoint 40 30)" and ?st0.0 = "\<lambda>i. enabled_widget"]
  by (simp add: Let_def eventFilter_def filter_event_def update_def enabled_widget_eq
        plain_widget_def mapFromGlobal_def rect_contains_def getattr_pos_def)

text \<open>
  C8. \<open>_on_dead\<close> clears the back-reference. From then on every call of \<open>eventFilter\<close>
  returns \<open>False\<close> and leaves the store of widgets as it was, so no state is changed, no
  repaint requested and no widget touched, for one event and for every sequence of
  events. \<open>eventFilter\<close> has no error result.
\<close>

theorem dead_listener_is_inert:
  "filter_target (on_dead flt) = None
   \<and> eventFilter (on_dead flt) watched ev st = (st, False)
   \<and> deliver (on_dead flt) evs st = st"
proof -
  have dead: "filter_target (on_dead flt) = None"
    by (simp add: on_dead_def)
  have one: "eventFilter (on_dead flt) wd e s = (s, False)" for wd e s
    by (simp add: eventFilter_def dead)
  have "deliver (on_dead flt) evs st = st"
    by (induction evs arbitrary: st) (auto simp: one)
  with dead one show ?thesis
    by simp
qed

theorem dead_listener_is_inert_witness:
  "deliver (on_dead \<lparr>filter_target = Some 0, delete_later = False\<rparr>)
      [(0, Enter (QPoint 3 4)), (1, MouseButtonPress), (0, MouseMove (QPoint 40 30))]
      (\<lambda>i. enabled_widget) = (\<lambda>i. enabled_widget)"
  using dead_listener_is_inert [of "\<lparr>filter_target = Some 0, delete_later = False\<rparr>" 0 Leave
          "\<lambda>i. enabled_widget"
          "[(0, Enter (QPoint 3 4)), (1, MouseButtonPress), (0, MouseMove (QPoint 40 30))]"]
  by simp

subsection \<open>Painting\<close>

text \<open>
  C2, as the code has it. For a widget with a stored pointer position and at least one
  accent stop, the overlay draws nothing when hovering is false or the pointer's x
  coordinate is negative, as that of the never-entered sentinel \<open>(-1, -1)\<close> is. Otherwise it
  fills the clip path with a radial gradient centred at the pointer, of radius
  \<open>max(width, height)\<close> times 0.6 when pressed and 0.9 when not, whose centre colour is accent
  stop 0 with alpha \<open>opacity\<close> when pressed and \<open>opacity * 0.6\<close> when not, and whose edge
  colour is accent stop 1 if there is one and transparent otherwise.
\<close>

theorem overlay_gradient:
  assumes pos: "hg_pos w = Some pos" and cols: "getattr_cols w = accent # rest"
  shows "(\<not> getattr_hover w \<or> px pos < 0 \<longrightarrow> draw_hover_gradient w pth opacity = Inr None)
       \<and> (getattr_hover w \<and> 0 \<le> px pos \<longrightarrow>
            draw_hover_gradient w pth opacity =
              Inr (Some (pth,
                \<lparr>grad_center = pos,
                 grad_radius = real_of_int (max (width w) (height w))
                                 * (if getattr_pressed w then 0.6 else 0.9),
                 centre_color = accent,
                 centre_alpha = (if getattr_pressed w then opacity else opacity * 0.6),
                 edge = (case rest of [] \<Rightarrow> Transparent | c # cs \<Rightarrow> EdgeColor c)\<rparr>)))"
  using pos cols by (cases rest) (auto simp: draw_hover_gradient_def Let_def)

theorem overlay_gradient_witness:
  "draw_hover_gradient (filter_event (Enter (QPoint 30 12)) enabled_widget)
      (RectPath (QRect 0 0 99 39)) 255
     = Inr (Some (RectPath (QRect 0 0 99 39),
          \<lparr>grad_center = QPoint 30 12, grad_radius = 90, centre_color = QColor ''#ff0000'',
           centre_alpha = 153, edge = Transparent\<rparr>))
   \<and> draw_hover_gradient (filter_event MouseButtonPress (filter_event (Enter (QPoint 30 12)) enabled_widget))
      (RectPath (QRect 0 0 99 39)) 255
     = Inr (Some (RectPath (QRect 0 0 99 39),
          \<lparr>grad_center = QPoint 30 12, grad_radius = 60, centre_color = QColor ''#ff0000'',
           centre_alpha = 255, edge = Transparent\<rparr>))
   \<and> draw_hover_gradient enabled_widget (RectPath (QRect 0 0 99 39)) 255 = Inr None"
proof -
  let ?entered = "filter_event (Enter (QPoint 30 12)) enabled_widget"
  let ?pressed = "filter_event MouseButtonPress ?entered"
  have pos1: "hg_pos ?entered = Some (QPoint 30 12)"
    and cols1: "getattr_cols ?entered = QColor ''#ff0000'' # []"
    and pos2: "hg_pos ?pressed = Some (QPoint 30 12)"
    and cols2: "getattr_cols ?pressed = QColor ''#ff0000'' # []"
    and pos0: "hg_pos enabled_widget = Some (QPoint (- 1) (- 1))"
    and cols0: "getattr_cols enabled_widget = QColor ''#ff0000'' # []"
    by (simp_all add: filter_event_def update_def getattr_cols_def enabled_widget_eq)
  show ?thesis
    using overlay_gradient [OF pos1 cols1, of "RectPath (QRect 0 0 99 39)" 255]
          overlay_gradient [OF pos2 cols2, of "RectPath (QRect 0 0 99 39)" 255]
          overlay_gradient [OF pos0 cols0, of "RectPath (QRect 0 0 99 39)" 255]
    by (simp add: filter_event_def update_def getattr_hover_def getattr_pressed_def
          enabled_widget_eq plain_widget_def)
qed

text \<open>
  The claim C2 as stated fails: after an enter event at \<open>(-5, 3)\<close> the widget is hovering
  and its pointer is not the sentinel \<open>(-1, -1)\<close>, and the overlay draws nothing.
\<close>

theorem overlay_negative_x_counterexample:
  "getattr_hover (filter_event (Enter (QPoint (- 5) 3)) enabled_widget)
   \<and> hg_pos (filter_event (Enter (QPoint (- 5) 3)) enabled_widget) = Some (QPoint (- 5) 3)
   \<and> QPoint (- 5) 3 \<noteq> QPoint (- 1) (- 1)
   \<and> draw_hover_gradient (filter_event (Enter (QPoint (- 5) 3)) enabled_widget)
        (RectPath (QRect 0 0 99 39)) 255 = Inr None"
  by (simp add: draw_hover_gradient_def getattr_hover_def filter_event_def update_def)

text \<open>
  C6. The resolver scans the widget's own style text first. When that text has a
  declaration, the result is the integer of its last declaration and the application's
  text plays no part; otherwise the application's text, if there is an application,
  decides in the same way; and the result is 0 when neither text has a declaration. The
  matches \<open>re.findall\<close> returns are the declarations of the text, all of them and in order.
\<close>

theorem border_radius_precedence:
  "extract_border_radius w app =
     (if declarations (styleSheet w) \<noteq> []
      then int_of_digits (last (declarations (styleSheet w)))
      else case app of
             None \<Rightarrow> 0
           | Some a \<Rightarrow> if declarations a \<noteq> [] then int_of_digits (last (declarations a)) else 0)
   \<and> findall (styleSheet w) = declarations (styleSheet w)
   \<and> (declarations (styleSheet w) \<noteq> [] \<longrightarrow>
        extract_border_radius w app = extract_border_radius w app')
   \<and> (declarations (styleSheet w) = [] \<and> (\<forall>a. app = Some a \<longrightarrow> declarations a = []) \<longrightarrow>
        extract_border_radius w app = 0)"
proof -
  have scan: "scan_sources [s1] = (if declarations s1 \<noteq> [] then int_of_digits (last (declarations s1)) else 0)"
    for s1
    by (simp add: findall_declarations Let_def)
  have scan2: "scan_sources [s1, s2] =
      (if declarations s1 \<noteq> [] then int_of_digits (last (declarations s1))
       else if declarations s2 \<noteq> [] then int_of_digits (last (declarations s2)) else 0)"
    for s1 s2
    by (simp add: findall_declarations Let_def)
  show ?thesis
    by (cases app) (auto simp: extract_border_radius_def scan scan2 findall_declarations
          split: option.splits)
qed

theorem border_radius_precedence_witness:
  "extract_border_radius plain_widget (Some ''* { border-radius: 9px; }'') = 12
   \<and> extract_border_radius (plain_widget\<lparr>styleSheet := ''QFrame { color: red; }''\<rparr>)
        (Some ''* { border-radius: 9px; }'') = 9
   \<and> extract_border_radius (plain_widget\<lparr>styleSheet := ''QFrame { color: red; }''\<rparr>)
        (Some ''* { border: 1px; }'') = 0"
  using border_radius_precedence [of plain_widget "Some ''* { border-radius: 9px; }''" None]
        border_radius_precedence [of "plain_widget\<lparr>styleSheet := ''QFrame { color: red; }''\<rparr>"
          "Some ''* { border-radius: 9px; }''" None]
        border_radius_precedence [of "plain_widget\<lparr>styleSheet := ''QFrame { color: red; }''\<rparr>"
          "Some ''* { border: 1px; }''" None]
  by (simp add: plain_widget_def declarations_def match_here_def is_space_def
        is_digit_def int_of_digits_def digit_value_def)

text \<open>
  C7. A paint of a widget without a memoized radius extracts the radius from the style
  texts and stores it. A paint of a widget with a memoized radius \<open>r\<close> leaves the widget as
  it is and draws with \<open>r\<close>, whatever the widget's and the application's style texts have
  become: the drawing is that of the paint before the change. No paint clears the stored
  radius and no event of the listener changes it, so after the first paint the style
  text is never read again.
\<close>

theorem radius_memoized:
  "(hg_radius w = None \<longrightarrow>
      hg_radius (fst (run_paint (PatchedPaint opacity OriginalPaint) app w))
        = Some (extract_border_radius w app))
   \<and> (\<forall>r. hg_radius w = Some r \<longrightarrow>
        paint_radius app' (w\<lparr>styleSheet := s\<rparr>) = (w\<lparr>styleSheet := s\<rparr>, r)
      \<and> fst (run_paint (PatchedPaint opacity OriginalPaint) app' (w\<lparr>styleSheet := s\<rparr>))
          = w\<lparr>styleSheet := s\<rparr>
      \<and> snd (run_paint (PatchedPaint opacity OriginalPaint) app' (w\<lparr>styleSheet := s\<rparr>))
          = snd (run_paint (PatchedPaint opacity OriginalPaint) app w)
      \<and> snd (run_paint (PatchedPaint opacity OriginalPaint) app w)
          = (case draw_hover_gradient w (clip_path w r) opacity of
               Inl e \<Rightarrow> Inl e
             | Inr None \<Rightarrow> Inr [OriginalDrawing]
             | Inr (Some (pth, g)) \<Rightarrow> Inr [OriginalDrawing, FillPath pth g]))
   \<and> hg_radius (fst (run_paint (PatchedPaint opacity OriginalPaint) app w)) \<noteq> None
   \<and> snd (run_paint (PatchedPaint opacity OriginalPaint) app'
            ((fst (run_paint (PatchedPaint opacity OriginalPaint) app w))\<lparr>styleSheet := s\<rparr>))
       = snd (run_paint (PatchedPaint opacity OriginalPaint) app
            (fst (run_paint (PatchedPaint opacity OriginalPaint) app w)))
   \<and> hg_radius (fst (run_paint (PatchedPaint opacity OriginalPaint) app'
            ((fst (run_paint (PatchedPaint opacity OriginalPaint) app w))\<lparr>styleSheet := s\<rparr>)))
       = hg_radius (fst (run_paint (PatchedPaint opacity OriginalPaint) app w))
   \<and> hg_radius (filter_event ev w) = hg_radius w"
  by (auto simp: patched_paint_def paint_radius_def Let_def draw_ignores_style
        draw_ignores_radius clip_path_ignores_style filter_event_keeps_radius
        split: option.splits sum.splits prod.splits)

theorem radius_memoized_witness:
  "hg_radius (fst (run_paint (PatchedPaint 255 OriginalPaint) (Some ''* { border-radius: 9px; }'')
      (filter_event (Enter (QPoint 30 12)) enabled_widget))) = Some 12
   \<and> snd (run_paint (PatchedPaint 255 OriginalPaint) None
        ((fst (run_paint (PatchedPaint 255 OriginalPaint) (Some ''* { border-radius: 9px; }'')
           (filter_event (Enter (QPoint 30 12)) enabled_widget)))
         \<lparr>styleSheet := ''QFrame { border-radius: 30px; }''\<rparr>))
      = Inr [OriginalDrawing,
             FillPath (RoundedRectPath (QRect 0 0 99 39) 12 12)
               \<lparr>grad_center = QPoint 30 12, grad_radius = 90, centre_color = QColor ''#ff0000'',
                centre_alpha = 153, edge = Transparent\<rparr>]"
  using radius_memoized [where w = "filter_event (Enter (QPoint 30 12)) enabled_widget"
          and opacity = 255 and app = "Some ''* { border-radius: 9px; }''" and app' = None
          and s = "''QFrame { border-radius: 30px; }''" and ev = Leave]
  by (simp add: filter_event_def update_def enabled_widget_eq plain_widget_def
        patched_paint_def paint_radius_def extract_border_radius_def clip_path_def
        adjusted_rect_def draw_hover_gradient_def getattr_hover_def getattr_pressed_def
        getattr_cols_def match_here_def is_space_def is_digit_def int_of_digits_def
        digit_value_def Let_def)

end
